theory Spec2Isabelle
  imports Complex_Main "HOL-Library.AList"
begin

section \<open>Python values, exceptions and dictionaries\<close>

text \<open>
  The values that flow through the intent pipeline of
  \<^verbatim>\<open>src/core/intent_recognition.py\<close>: \<^verbatim>\<open>None\<close>, \<^verbatim>\<open>str\<close>, \<^verbatim>\<open>int\<close>,
  \<^verbatim>\<open>float\<close>, \<^verbatim>\<open>bool\<close>, the dictionary \<^verbatim>\<open>{"x": .., "y": ..}\<close> built for
  coordinates, and \<^verbatim>\<open>pathlib.Path\<close> objects. Python's binary floats are idealised as
  exact rationals: no rounding, no infinities, no NaN.
\<close>

datatype pyval =
    VNone
  | VStr string
  | VInt int
  | VFloat rat
  | VBool bool
  | VCoords int int
  | VPath string

text \<open>
  A raised exception is its class and its message (\<^verbatim>\<open>str(e)\<close>). \<open>BaseExceptionOnly\<close>
  stands for the classes outside the \<^verbatim>\<open>Exception\<close> hierarchy (\<^verbatim>\<open>SystemExit\<close>,
  \<^verbatim>\<open>KeyboardInterrupt\<close>), which \<^verbatim>\<open>except Exception\<close> does not catch.
\<close>

datatype exc_class =
    ValueError
  | TypeError
  | AttributeError
  | IndexError
  | KeyError
  | ReError
  | SyntaxError
  | OtherException
  | BaseExceptionOnly

type_synonym exc = "exc_class \<times> string"

text \<open>A \<^verbatim>\<open>dict\<close> with string keys, in insertion order.\<close>

type_synonym pydict = "(string \<times> pyval) list"

definition dict_get :: "pydict \<Rightarrow> string \<Rightarrow> pyval option" where
  "dict_get d k = map_of d k"

definition dict_set :: "pydict \<Rightarrow> string \<Rightarrow> pyval \<Rightarrow> pydict" where
  "dict_set d k v = AList.update k v d"

subsection \<open>Strings\<close>

text \<open>
  Strings are byte strings here, so \<^verbatim>\<open>str.lower\<close>, \<^verbatim>\<open>str.strip\<close> and the regex
  class \<^verbatim>\<open>\d\<close> are modelled on ASCII.
\<close>

fun lower_char :: "char \<Rightarrow> char" where
  "lower_char (Char b0 b1 b2 b3 b4 b5 b6 b7) =
     (let n = (of_char (Char b0 b1 b2 b3 b4 b5 b6 b7) :: nat)
      in if 65 \<le> n \<and> n \<le> 90 then Char b0 b1 b2 b3 b4 True b6 b7
         else Char b0 b1 b2 b3 b4 b5 b6 b7)"

definition lower :: "string \<Rightarrow> string" where
  "lower s = map lower_char s"



definition is_digit :: "char \<Rightarrow> bool" where
  "is_digit c = (48 \<le> (of_char c :: nat) \<and> (of_char c :: nat) \<le> 57)"

text \<open>
  \<^verbatim>\<open>re.findall(r'\d+', value)\<close>: the maximal runs of decimal digits, left to right.
  \<open>cur\<close> is the run being read.
\<close>

fun digit_runs :: "string \<Rightarrow> string \<Rightarrow> string list" where
  "digit_runs cur [] = (if cur = [] then [] else [cur])"
| "digit_runs cur (c # cs) =
     (if is_digit c then digit_runs (cur @ [c]) cs
      else (if cur = [] then [] else [cur]) @ digit_runs [] cs)"

definition findall_digits :: "string \<Rightarrow> string list" where
  "findall_digits s = digit_runs [] s"

text \<open>\<^verbatim>\<open>int(s)\<close> on a string of decimal digits.\<close>

definition int_of_digits :: "string \<Rightarrow> int" where
  "int_of_digits s = foldl (\<lambda>n c. 10 * n + ((of_char c :: int) - 48)) 0 s"

subsection \<open>Built-in conversions\<close>

text \<open>
  What Python's library does is taken as a parameter wherever the source only calls it:
  \<^item> \<open>int_of_str\<close>, \<open>float_of_str\<close>: \<^verbatim>\<open>int(s)\<close> and \<^verbatim>\<open>float(s)\<close> on a string,
    \<open>None\<close> where they raise \<^verbatim>\<open>ValueError\<close>;
  \<^item> \<open>re_search\<close>: \<^verbatim>\<open>re.compile(pattern, re.IGNORECASE).search(text)\<close>, giving
    \<^verbatim>\<open>match.group(0)\<close> and \<^verbatim>\<open>match.groupdict()\<close> (a named group that did not take
    part in the match is mapped to \<open>None\<close>);
  \<^item> \<open>re_match\<close>: whether \<^verbatim>\<open>re.match(pattern, s)\<close> finds a match, or the
    \<^verbatim>\<open>re.error\<close> it raises on a malformed pattern;
  \<^item> \<open>str_of\<close>: \<^verbatim>\<open>str(value)\<close>.
\<close>

record py_env =
  int_of_str :: "string \<Rightarrow> int option"
  float_of_str :: "string \<Rightarrow> rat option"
  re_search :: "string \<Rightarrow> string \<Rightarrow> (string \<times> (string \<times> string option) list) option"
  re_match :: "string \<Rightarrow> string \<Rightarrow> exc + bool"
  str_of :: "pyval \<Rightarrow> string"

fun type_name :: "pyval \<Rightarrow> string" where
  "type_name VNone = ''NoneType''"
| "type_name (VStr _) = ''str''"
| "type_name (VInt _) = ''int''"
| "type_name (VFloat _) = ''float''"
| "type_name (VBool _) = ''bool''"
| "type_name (VCoords _ _) = ''dict''"
| "type_name (VPath _) = ''PosixPath''"

text \<open>\<^verbatim>\<open>int(value)\<close>: a float is truncated towards zero.\<close>

fun py_int :: "py_env \<Rightarrow> pyval \<Rightarrow> exc + pyval" where
  "py_int env (VStr s) =
     (case int_of_str env s of
        Some n \<Rightarrow> Inr (VInt n)
      | None \<Rightarrow> Inl (ValueError, ''invalid literal for int() with base 10''))"
| "py_int env (VInt n) = Inr (VInt n)"
| "py_int env (VFloat q) = Inr (VInt (if 0 \<le> q then \<lfloor>q\<rfloor> else \<lceil>q\<rceil>))"
| "py_int env (VBool b) = Inr (VInt (if b then 1 else 0))"
| "py_int env v =
     Inl (TypeError, ''int() argument must be a string, a bytes-like object or a real number'')"

text \<open>\<^verbatim>\<open>float(value)\<close>.\<close>

fun py_float :: "py_env \<Rightarrow> pyval \<Rightarrow> exc + pyval" where
  "py_float env (VStr s) =
     (case float_of_str env s of
        Some q \<Rightarrow> Inr (VFloat q)
      | None \<Rightarrow> Inl (ValueError, ''could not convert string to float''))"
| "py_float env (VInt n) = Inr (VFloat (of_int n))"
| "py_float env (VFloat q) = Inr (VFloat q)"
| "py_float env (VBool b) = Inr (VFloat (if b then 1 else 0))"
| "py_float env v = Inl (TypeError, ''float() argument must be a string or a real number'')"

text \<open>\<^verbatim>\<open>value.lower()\<close>: only \<^verbatim>\<open>str\<close> has the method.\<close>

fun py_lower :: "pyval \<Rightarrow> exc + string" where
  "py_lower (VStr s) = Inr (lower s)"
| "py_lower v =
     Inl (AttributeError,
          [CHR 0x27] @ type_name v @ [CHR 0x27] @ '' object has no attribute ''
            @ [CHR 0x27] @ ''lower'' @ [CHR 0x27])"

text \<open>\<^verbatim>\<open>re.findall(r'\d+', value)\<close>: anything but a string is a \<^verbatim>\<open>TypeError\<close>.\<close>

fun py_findall_digits :: "pyval \<Rightarrow> exc + string list" where
  "py_findall_digits (VStr s) = Inr (findall_digits s)"
| "py_findall_digits v = Inl (TypeError, ''expected string or bytes-like object'')"

text \<open>\<^verbatim>\<open>Path(value)\<close>: \<open>VPath s\<close> is the path built from the string \<open>s\<close>.\<close>

fun py_Path :: "pyval \<Rightarrow> exc + pyval" where
  "py_Path (VStr s) = Inr (VPath s)"
| "py_Path (VPath p) = Inr (VPath p)"
| "py_Path v = Inl (TypeError, ''expected str, bytes or os.PathLike object'')"

section \<open>Parameter type conversion\<close>

text \<open>
  \<^verbatim>\<open>IntentRecognizer._convert_parameter_type(value, param_type)\<close>. \<open>convert_body\<close> is
  the body of the \<^verbatim>\<open>try\<close>; the handler \<^verbatim>\<open>except (ValueError, TypeError): return value\<close>
  is in \<open>convert_parameter_type\<close>. Any other exception leaves the function.
\<close>

definition convert_body :: "py_env \<Rightarrow> pyval \<Rightarrow> string \<Rightarrow> exc + pyval" where
  "convert_body env v param_type =
     (if param_type = ''int'' then py_int env v
      else if param_type = ''float'' then py_float env v
      else if param_type = ''bool'' then
        (case py_lower v of
           Inl e \<Rightarrow> Inl e
         | Inr l \<Rightarrow> Inr (VBool (l \<in> set [''true'', ''yes'', ''1'', ''on'', ''enable''])))
      else if param_type = ''coordinates'' then
        (case py_findall_digits v of
           Inl e \<Rightarrow> Inl e
         | Inr coords \<Rightarrow>
             if 2 \<le> length coords
             then Inr (VCoords (int_of_digits (coords ! 0)) (int_of_digits (coords ! 1)))
             else Inr VNone)
      else if param_type = ''path'' then py_Path v
      else Inr v)"

definition convert_parameter_type :: "py_env \<Rightarrow> pyval \<Rightarrow> string \<Rightarrow> exc + pyval" where
  "convert_parameter_type env v param_type =
     (if v = VNone then Inr VNone
      else
        (case convert_body env v param_type of
           Inl (cls, msg) \<Rightarrow>
             if cls = ValueError \<or> cls = TypeError then Inr v else Inl (cls, msg)
         | Inr r \<Rightarrow> Inr r))"

text \<open>
  A parser of plain decimal strings, agreeing with \<^verbatim>\<open>int\<close> and \<^verbatim>\<open>float\<close> on them;
  it instantiates the parameters where a theorem is run on a concrete input.
\<close>

definition digits_int :: "string \<Rightarrow> int option" where
  "digits_int s = (if s \<noteq> [] \<and> list_all is_digit s then Some (int_of_digits s) else None)"

definition digits_float :: "string \<Rightarrow> rat option" where
  "digits_float s = map_option of_int (digits_int s)"

section \<open>Intents\<close>

datatype IntentCategory =
    AUTOMATION
  | FILE_SYSTEM
  | SYSTEM_INFO
  | APPLICATION
  | COMMUNICATION
  | CODE_EXECUTION
  | MEDIA
  | UTILITY

text \<open>
  The dataclass \<^verbatim>\<open>IntentParameter\<close>; its fields carry the prefix \<open>p_\<close> because
  \<^verbatim>\<open>Intent\<close> has fields of the same names. \<open>p_default = VNone\<close> is
  \<^verbatim>\<open>default=None\<close>.
\<close>

record IntentParameter =
  p_name :: string
  p_type :: string
  p_required :: bool
  p_description :: string
  p_default :: pyval
  p_validation_pattern :: "string option"

text \<open>
  A handler is called with the automation object and the parameter dictionary. The
  automation object is the same for every call, so a handler is a function of the
  dictionary; it returns its result dictionary or raises.
\<close>

type_synonym handler_fn = "pydict \<Rightarrow> exc + pydict"

record Intent =
  name :: string
  category :: IntentCategory
  parameters :: "(string \<times> IntentParameter) list"
  patterns :: "string list"
  handler :: "handler_fn option"
  requires_confirmation :: bool
  description :: string
  examples :: "string list"

record ParsedIntent =
  intent :: Intent
  extracted_params :: pydict
  confidence :: rat
  raw_text :: string

text \<open>
  The part of an \<^verbatim>\<open>re.Match\<close> the code reads: \<^verbatim>\<open>group(0)\<close>,
  \<^verbatim>\<open>groupdict()\<close> and \<^verbatim>\<open>string\<close> (the text that was searched).
\<close>

record Match =
  m_group0 :: string
  m_groupdict :: "(string \<times> string option) list"
  m_string :: string

text \<open>
  The two dictionaries of \<^verbatim>\<open>IntentRecognizer\<close>. A compiled pattern is represented
  by its source text; \<^verbatim>\<open>re.IGNORECASE\<close> is part of \<open>re_search\<close>.
\<close>

record IntentRecognizer =
  intents :: "(string \<times> Intent) list"
  compiled_patterns :: "(string \<times> string list) list"

text \<open>
  \<^verbatim>\<open>register_intent(intent, handler=None)\<close>. Assigning to a key that is already in a
  dictionary keeps its position, as \<open>AList.update\<close> does.
\<close>

definition register_intent ::
  "IntentRecognizer \<Rightarrow> Intent \<Rightarrow> handler_fn option \<Rightarrow> IntentRecognizer" where
  "register_intent r i h =
     (let i' = (case h of Some f \<Rightarrow> i\<lparr>handler := Some f\<rparr> | None \<Rightarrow> i)
      in r\<lparr>intents := AList.update (name i') i' (intents r),
            compiled_patterns := AList.update (name i') (patterns i') (compiled_patterns r)\<rparr>)"

subsection \<open>Parameter extraction\<close>

text \<open>\<^verbatim>\<open>match.group(param_name)\<close> for a name of \<^verbatim>\<open>groupdict()\<close>.\<close>

fun group_value :: "string option \<Rightarrow> pyval" where
  "group_value None = VNone"
| "group_value (Some s) = VStr s"

text \<open>
  One iteration of the loop of \<^verbatim>\<open>_extract_parameters\<close>: \<open>extract_try\<close> is the
  body of the \<^verbatim>\<open>try\<close>, \<open>extract_step\<close> adds the handler
  \<^verbatim>\<open>except (IndexError, ValueError)\<close>.
\<close>

definition extract_try ::
  "py_env \<Rightarrow> Match \<Rightarrow> string \<times> IntentParameter \<Rightarrow> pydict \<Rightarrow> exc + pydict" where
  "extract_try env m kp extracted =
     (case kp of (param_name, param) \<Rightarrow>
        (case map_of (m_groupdict m) param_name of
           Some g \<Rightarrow>
             (case convert_parameter_type env (group_value g) (p_type param) of
                Inl e \<Rightarrow> Inl e
              | Inr v \<Rightarrow> Inr (dict_set extracted param_name v))
         | None \<Rightarrow>
             if \<not> p_required param \<and> p_default param \<noteq> VNone
             then Inr (dict_set extracted param_name (p_default param))
             else Inr extracted))"

definition extract_step ::
  "py_env \<Rightarrow> Match \<Rightarrow> string \<times> IntentParameter \<Rightarrow> pydict \<Rightarrow> exc + pydict" where
  "extract_step env m kp extracted =
     (case extract_try env m kp extracted of
        Inl (cls, msg) \<Rightarrow>
          if cls = IndexError \<or> cls = ValueError
          then (if p_default (snd kp) \<noteq> VNone
                then Inr (dict_set extracted (fst kp) (p_default (snd kp)))
                else Inr extracted)
          else Inl (cls, msg)
      | Inr d \<Rightarrow> Inr d)"

fun extract_loop ::
  "py_env \<Rightarrow> Match \<Rightarrow> (string \<times> IntentParameter) list \<Rightarrow> pydict \<Rightarrow> exc + pydict" where
  "extract_loop env m [] extracted = Inr extracted"
| "extract_loop env m (kp # kps) extracted =
     (case extract_step env m kp extracted of
        Inl e \<Rightarrow> Inl e
      | Inr d \<Rightarrow> extract_loop env m kps d)"

definition extract_parameters :: "py_env \<Rightarrow> Intent \<Rightarrow> Match \<Rightarrow> string \<Rightarrow> exc + pydict" where
  "extract_parameters env i m text = extract_loop env m (parameters i) []"

subsection \<open>Confidence\<close>



subsection \<open>Parsing\<close>






subsection \<open>Validation and execution\<close>

text \<open>Truth value of a Python object, as \<^verbatim>\<open>if value\<close> tests it.\<close>

fun truthy :: "pyval \<Rightarrow> bool" where
  "truthy VNone = False"
| "truthy (VStr s) = (s \<noteq> [])"
| "truthy (VInt n) = (n \<noteq> 0)"
| "truthy (VFloat q) = (q \<noteq> 0)"
| "truthy (VBool b) = b"
| "truthy (VCoords x y) = True"
| "truthy (VPath p) = True"

text \<open>\<^verbatim>\<open>sep.join(xs)\<close>.\<close>

fun join :: "string \<Rightarrow> string list \<Rightarrow> string" where
  "join sep [] = []"
| "join sep [x] = x"
| "join sep (x # y # ys) = x @ sep @ join sep (y # ys)"

definition quoted :: "string \<Rightarrow> string" where
  "quoted s = [CHR 0x27] @ s @ [CHR 0x27]"

text \<open>
  One iteration of the loop of \<^verbatim>\<open>_validate_parameters\<close>, on the list
  \<^verbatim>\<open>errors\<close>. \<^verbatim>\<open>extracted_params.get(param_name)\<close> is \<^verbatim>\<open>None\<close> for a missing
  key.
\<close>

definition validate_step ::
  "py_env \<Rightarrow> pydict \<Rightarrow> string \<times> IntentParameter \<Rightarrow> string list \<Rightarrow> exc + string list" where
  "validate_step env extracted kp errors =
     (case kp of (param_name, param) \<Rightarrow>
        (let v = (case dict_get extracted param_name of None \<Rightarrow> VNone | Some x \<Rightarrow> x)
         in if p_required param \<and> v = VNone
            then Inr (errors @ [''Required parameter '' @ quoted param_name @ '' is missing''])
            else
              (case p_validation_pattern param of
                 None \<Rightarrow> Inr errors
               | Some vp \<Rightarrow>
                   if truthy v \<and> vp \<noteq> []
                   then (case re_match env vp (str_of env v) of
                           Inl e \<Rightarrow> Inl e
                         | Inr matched \<Rightarrow>
                             if \<not> matched
                             then Inr (errors @ [''Parameter '' @ quoted param_name
                                                  @ '' doesn'' @ [CHR 0x27]
                                                  @ ''t match required pattern''])
                             else Inr errors)
                   else Inr errors)))"

fun validate_loop ::
  "py_env \<Rightarrow> pydict \<Rightarrow> (string \<times> IntentParameter) list \<Rightarrow> string list \<Rightarrow> exc + string list" where
  "validate_loop env extracted [] errors = Inr errors"
| "validate_loop env extracted (kp # kps) errors =
     (case validate_step env extracted kp errors of
        Inl e \<Rightarrow> Inl e
      | Inr errors' \<Rightarrow> validate_loop env extracted kps errors')"

text \<open>The result \<^verbatim>\<open>{"valid": .., "error": ..}\<close> as a pair.\<close>

definition validate_parameters :: "py_env \<Rightarrow> ParsedIntent \<Rightarrow> exc + bool \<times> string option" where
  "validate_parameters env parsed =
     (case validate_loop env (extracted_params parsed) (parameters (intent parsed)) [] of
        Inl e \<Rightarrow> Inl e
      | Inr errors \<Rightarrow>
          Inr (errors = [], if errors \<noteq> [] then Some (join ''; '' errors) else None))"

text \<open>The dictionary \<^verbatim>\<open>{"success": False, "error": msg}\<close>.\<close>

definition failure :: "string \<Rightarrow> pydict" where
  "failure msg = [(''success'', VBool False), (''error'', VStr msg)]"

text \<open>
  \<^verbatim>\<open>execute_intent(parsed_intent)\<close>: \<open>execute_try\<close> is the body of the \<^verbatim>\<open>try\<close>
  (a coroutine handler is awaited, any other is called: both give the handler's result),
  and \<open>execute_intent\<close> adds the test for a handler and \<^verbatim>\<open>except Exception\<close>.
\<close>

definition execute_try :: "py_env \<Rightarrow> handler_fn \<Rightarrow> ParsedIntent \<Rightarrow> exc + pydict" where
  "execute_try env h parsed =
     (case validate_parameters env parsed of
        Inl e \<Rightarrow> Inl e
      | Inr (valid, err) \<Rightarrow>
          if \<not> valid
          then Inr (failure (''Parameter validation failed: ''
                              @ (case err of None \<Rightarrow> ''None'' | Some s \<Rightarrow> s)))
          else h (dict_set (extracted_params parsed) ''_raw_message'' (VStr (raw_text parsed))))"

definition execute_intent :: "py_env \<Rightarrow> ParsedIntent \<Rightarrow> exc + pydict" where
  "execute_intent env parsed =
     (case handler (intent parsed) of
        None \<Rightarrow> Inr (failure (''No handler registered for intent: '' @ name (intent parsed)))
      | Some h \<Rightarrow>
          (case execute_try env h parsed of
             Inl (cls, msg) \<Rightarrow>
               if cls \<noteq> BaseExceptionOnly then Inr (failure msg) else Inl (cls, msg)
           | Inr result \<Rightarrow> Inr result))"

section \<open>The code sandbox\<close>

text \<open>
  \<^verbatim>\<open>src/utils/code_executor.py\<close>. \<^verbatim>\<open>startswith\<close> on strings:
\<close>

definition startswith :: "string \<Rightarrow> string \<Rightarrow> bool" where
  "startswith s p = (take (length p) s = p)"

text \<open>\<^verbatim>\<open>d1.update(d2)\<close> on dictionaries, for values of any type.\<close>

definition dict_update :: "(string \<times> 'v) list \<Rightarrow> (string \<times> 'v) list \<Rightarrow> (string \<times> 'v) list" where
  "dict_update d1 d2 = foldl (\<lambda>d kv. AList.update (fst kv) (snd kv) d) d1 d2"

subsection \<open>Static validation\<close>

text \<open>
  The part of Python's abstract syntax that \<^verbatim>\<open>CodeValidator\<close> looks at: calls, attribute
  accesses and the two import statements, with the expressions and statements around
  them.
\<close>

datatype expr =
    Name string
  | Constant pyval
  | Call expr "expr list"
  | Attribute expr string
  | BinOp expr expr

datatype stmt =
    Import "string list"
  | ImportFrom "string option" "string list"
  | Expr expr
  | Assign "expr list" expr

definition prohibited_functions :: "string list" where
  "prohibited_functions =
     [''exec'', ''eval'', ''compile'', ''open'', ''__import__'',
      ''getattr'', ''setattr'', ''delattr'', ''hasattr'',
      ''globals'', ''locals'', ''vars'', ''dir'']"

definition prohibited_modules :: "string list" where
  "prohibited_modules =
     [''os'', ''sys'', ''subprocess'', ''socket'', ''urllib'',
      ''requests'', ''shutil'', ''pathlib'', ''tempfile'']"

text \<open>\<^verbatim>\<open>name.split('.')[0]\<close>.\<close>

definition first_component :: "string \<Rightarrow> string" where
  "first_component s = takeWhile (\<lambda>c. c \<noteq> CHR ''.'') s"

text \<open>
  The visitor, as the list of messages it appends to \<^verbatim>\<open>self.violations\<close>, in the
  order of the traversal (\<^verbatim>\<open>generic_visit\<close> goes through the fields of a node in
  their declared order).
\<close>

fun visit_expr :: "expr \<Rightarrow> string list" where
  "visit_expr (Name x) = []"
| "visit_expr (Constant c) = []"
| "visit_expr (Call f args) =
     (case f of
        Name x \<Rightarrow> if x \<in> set prohibited_functions then [''Prohibited function: '' @ x] else []
      | _ \<Rightarrow> [])
     @ visit_expr f @ concat (map visit_expr args)"
| "visit_expr (Attribute v attr) =
     (if startswith attr ''_'' then [''Prohibited attribute access: '' @ attr] else [])
     @ visit_expr v"
| "visit_expr (BinOp l r) = visit_expr l @ visit_expr r"

fun visit_Import :: "string list \<Rightarrow> string list" where
  "visit_Import [] = []"
| "visit_Import (alias # names) =
     (let module_name = first_component alias
      in if module_name \<in> set prohibited_modules
         then [''Prohibited import: '' @ module_name]
         else [])
     @ visit_Import names"

fun visit_stmt :: "stmt \<Rightarrow> string list" where
  "visit_stmt (Import names) = visit_Import names"
| "visit_stmt (ImportFrom node_module names) =
     (case node_module of
        None \<Rightarrow> []
      | Some m \<Rightarrow>
          if m \<noteq> [] \<and> first_component m \<in> set prohibited_modules
          then [''Prohibited import from: '' @ first_component m]
          else [])"
| "visit_stmt (Expr e) = visit_expr e"
| "visit_stmt (Assign targets v) = concat (map visit_expr targets) @ visit_expr v"

definition CodeValidator_violations :: "stmt list \<Rightarrow> string list" where
  "CodeValidator_violations tree = concat (map visit_stmt tree)"

text \<open>
  What the sandbox calls and does not define is a parameter:
  \<^item> \<open>ast_parse\<close>: \<^verbatim>\<open>ast.parse(code)\<close>, the tree or the exception raised;
  \<^item> \<open>compile_restricted_errors\<close>: \<open>None\<close> when RestrictedPython is not installed
    (\<^verbatim>\<open>RESTRICTED_PYTHON_AVAILABLE\<close> is false); else what evaluating
    \<^verbatim>\<open>compile_restricted(code, '<string>', 'exec').errors\<close> gives, the errors or the
    exception raised;
  \<^item> \<open>py_exec\<close>: \<^verbatim>\<open>exec(code, namespace)\<close> on the worker thread, from the namespace
    and the heap before to the outcome, the text written to standard output and to
    standard error, and the heap after;
  \<^item> \<open>is_module_or_function\<close>:
    \<^verbatim>\<open>isinstance(value, (types.ModuleType, types.FunctionType))\<close>;
  \<^item> \<open>json_serializable\<close>: whether \<^verbatim>\<open>json.dumps(value)\<close> returns (it raises
    \<^verbatim>\<open>TypeError\<close> or \<^verbatim>\<open>ValueError\<close> otherwise);
  \<^item> \<open>str_value\<close>: \<^verbatim>\<open>str(value)\<close>, as a value.
  \<open>'v\<close> is the type of the values bound in a namespace and \<open>'h\<close> the type of the heap
  of the objects they refer to.
\<close>

datatype 'v exec_outcome =
    Finished "(string \<times> 'v) list"
  | Raised exc
  | StillRunning

record ('v, 'h) sandbox_env =
  ast_parse :: "string \<Rightarrow> exc + stmt list"
  compile_restricted_errors :: "(string \<Rightarrow> exc + string list) option"
  py_exec :: "string \<Rightarrow> (string \<times> 'v) list \<Rightarrow> 'h \<Rightarrow> 'v exec_outcome \<times> string \<times> string \<times> 'h"
  is_module_or_function :: "'h \<Rightarrow> 'v \<Rightarrow> bool"
  json_serializable :: "'h \<Rightarrow> 'v \<Rightarrow> bool"
  str_value :: "'h \<Rightarrow> 'v \<Rightarrow> 'v"

datatype validation = Valid | Invalid string

text \<open>
  \<^verbatim>\<open>_validate_code(code)\<close>: \<open>validate_try\<close> is the body of the \<^verbatim>\<open>try\<close>. The
  validator visits the tree and fills its list of violations; the function does not read
  the list afterwards. The test of the compilation errors is written twice in the source,
  on the same code.
\<close>

definition validate_try :: "('v, 'h) sandbox_env \<Rightarrow> string \<Rightarrow> exc + validation" where
  "validate_try senv code =
     (case ast_parse senv code of
        Inl e \<Rightarrow> Inl e
      | Inr tree \<Rightarrow>
          (let violations = CodeValidator_violations tree
           in case compile_restricted_errors senv of
                None \<Rightarrow> Inr Valid
              | Some compile_errors \<Rightarrow>
                  (case compile_errors code of
                     Inl e \<Rightarrow> Inl e
                   | Inr errors \<Rightarrow>
                       if errors \<noteq> []
                       then Inr (Invalid (''Compilation errors: '' @ join ''; '' errors))
                       else (case compile_errors code of
                               Inl e \<Rightarrow> Inl e
                             | Inr errors2 \<Rightarrow>
                                 if errors2 \<noteq> []
                                 then Inr (Invalid (''Compilation errors: ''
                                                     @ join ''; '' errors2))
                                 else Inr Valid))))"

definition validate_code :: "('v, 'h) sandbox_env \<Rightarrow> string \<Rightarrow> exc + validation" where
  "validate_code senv code =
     (case validate_try senv code of
        Inl (cls, msg) \<Rightarrow>
          if cls = SyntaxError then Inr (Invalid (''Syntax error: '' @ msg))
          else if cls \<noteq> BaseExceptionOnly then Inr (Invalid (''Validation error: '' @ msg))
          else Inl (cls, msg)
      | Inr v \<Rightarrow> Inr v)"

subsection \<open>Execution\<close>

record 'v SafeExecutionEnvironment =
  timeout :: nat
  allowed_modules :: "string list"
  memory_limit_mb :: nat
  safe_namespace :: "(string \<times> 'v) list"

text \<open>
  The result dictionary of \<^verbatim>\<open>execute_code\<close>. \<^verbatim>\<open>execution_time\<close> (a clock reading)
  and \<^verbatim>\<open>return_value\<close> (always \<^verbatim>\<open>None\<close>) are left out; \<open>output_text\<close> is the key
  \<^verbatim>\<open>output\<close>; \<open>traceback\<close> says whether
  the key was added; \<open>session_variables\<close> is the key that \<^verbatim>\<open>_execute_persistent\<close>
  adds.
\<close>

record 'v exec_result =
  success :: bool
  output_text :: string
  error :: "string option"
  variables :: "(string \<times> 'v) list"
  traceback :: bool
  session_variables :: "(string \<times> 'v) list option"

text \<open>
  \<^verbatim>\<open>_extract_user_variables(namespace)\<close>. A name that starts with \<^verbatim>\<open>'__'\<close> starts
  with \<^verbatim>\<open>'_'\<close>, but the test is the source's.
\<close>

definition extract_step_var ::
  "('v, 'h) sandbox_env \<Rightarrow> 'h \<Rightarrow> string list \<Rightarrow> (string \<times> 'v) list \<Rightarrow> string \<times> 'v
     \<Rightarrow> (string \<times> 'v) list" where
  "extract_step_var senv h skip_names user_vars kv =
     (case kv of (nm, v) \<Rightarrow>
        if \<not> (startswith nm ''__'' \<or> startswith nm ''_'')
           \<and> nm \<notin> set skip_names
           \<and> \<not> is_module_or_function senv h v
        then (if json_serializable senv h v
              then AList.update nm v user_vars
              else AList.update nm (str_value senv h v) user_vars)
        else user_vars)"

definition extract_user_variables ::
  "('v, 'h) sandbox_env \<Rightarrow> 'v SafeExecutionEnvironment \<Rightarrow> 'h \<Rightarrow> (string \<times> 'v) list
     \<Rightarrow> (string \<times> 'v) list" where
  "extract_user_variables senv environment h namespace =
     foldl (extract_step_var senv h (map fst (safe_namespace environment))) [] namespace"

text \<open>
  \<^verbatim>\<open>_execute_with_timeout(code, namespace)\<close>: \<open>Inr (Some ns)\<close> is \<^verbatim>\<open>True\<close> with the
  namespace as the code left it, \<open>Inr None\<close> is \<^verbatim>\<open>False\<close>. An exception outside
  \<^verbatim>\<open>Exception\<close> ends the worker thread without setting \<^verbatim>\<open>success\<close> or
  \<^verbatim>\<open>exception\<close>, so the function returns \<^verbatim>\<open>False\<close> as it does after a timeout.
\<close>

definition execute_with_timeout ::
  "('v, 'h) sandbox_env \<Rightarrow> string \<Rightarrow> (string \<times> 'v) list \<Rightarrow> 'h
     \<Rightarrow> (exc + (string \<times> 'v) list option) \<times> string \<times> string \<times> 'h" where
  "execute_with_timeout senv code namespace h =
     (case py_exec senv code namespace h of
        (StillRunning, out, err, h') \<Rightarrow> (Inr None, out, err, h')
      | (Raised (cls, msg), out, err, h') \<Rightarrow>
          if cls = BaseExceptionOnly then (Inr None, out, err, h')
          else (Inl (cls, msg), out, err, h')
      | (Finished ns, out, err, h') \<Rightarrow> (Inr (Some ns), out, err, h'))"

definition initial_result :: "'v exec_result" where
  "initial_result =
     \<lparr>success = False, output_text = [], error = None, variables = [], traceback = False,
      session_variables = None\<rparr>"

text \<open>
  \<^verbatim>\<open>execute_code(code, variables)\<close>; \<open>variables = []\<close> stands for \<^verbatim>\<open>None\<close> too (both
  are false in \<^verbatim>\<open>if variables\<close>). The function returns its result and the heap.
\<close>

definition execute_code ::
  "('v, 'h) sandbox_env \<Rightarrow> 'v SafeExecutionEnvironment \<Rightarrow> string \<Rightarrow> (string \<times> 'v) list \<Rightarrow> 'h
     \<Rightarrow> (exc + 'v exec_result) \<times> 'h" where
  "execute_code senv environment code vars h =
     (case validate_code senv code of
        Inl (cls, msg) \<Rightarrow>
          if cls \<noteq> BaseExceptionOnly
          then (Inr (initial_result\<lparr>error := Some msg, traceback := True\<rparr>), h)
          else (Inl (cls, msg), h)
      | Inr (Invalid msg) \<Rightarrow> (Inr (initial_result\<lparr>error := Some msg\<rparr>), h)
      | Inr Valid \<Rightarrow>
          (let exec_namespace =
                 (if vars \<noteq> [] then dict_update (safe_namespace environment) vars
                  else safe_namespace environment)
           in case execute_with_timeout senv code exec_namespace h of
                (Inl (cls, msg), out, err, h') \<Rightarrow>
                  (Inr (initial_result\<lparr>error := Some msg, traceback := True\<rparr>), h')
              | (Inr finished, out, err, h') \<Rightarrow>
                  (let result =
                         (case finished of
                            Some ns \<Rightarrow>
                              initial_result
                                \<lparr>success := True, output_text := out,
                                 variables := extract_user_variables senv environment h' ns\<rparr>
                          | None \<Rightarrow> initial_result\<lparr>error := Some ''Execution timed out''\<rparr>)
                   in if err \<noteq> []
                      then (case error result of
                              Some msg \<Rightarrow>
                                (Inr (result\<lparr>error := Some (msg @ [CHR 0x0A] @ err)\<rparr>), h')
                            | None \<Rightarrow> (Inr (result\<lparr>error := Some err\<rparr>), h'))
                      else (Inr result, h'))))"

record 'v CodeExecutor =
  environment :: "'v SafeExecutionEnvironment"
  executor_session :: "(string \<times> 'v) list"

text \<open>
  \<^verbatim>\<open>CodeExecutor._execute_persistent(code)\<close>, on the executor (whose field
  \<^verbatim>\<open>session_variables\<close> is \<open>executor_session\<close> here) and the heap.
\<close>

definition execute_persistent ::
  "('v, 'h) sandbox_env \<Rightarrow> 'v CodeExecutor \<Rightarrow> string \<Rightarrow> 'h
     \<Rightarrow> (exc + 'v exec_result) \<times> 'v CodeExecutor \<times> 'h" where
  "execute_persistent senv ex code h =
     (case execute_code senv (environment ex) code (executor_session ex) h of
        (Inl e, h') \<Rightarrow> (Inl e, ex, h')
      | (Inr result, h') \<Rightarrow>
          if success result
          then (let sv = dict_update (executor_session ex) (variables result)
                in (Inr (result\<lparr>session_variables := Some sv\<rparr>),
                    ex\<lparr>executor_session := sv\<rparr>, h'))
          else (Inr result, ex, h'))"

section \<open>Notions used to state the properties\<close>





text \<open>
  Every intent of the recognizer has its list of compiled patterns: what
  \<^verbatim>\<open>register_intent\<close>, the only writer of the two dictionaries, maintains.
\<close>

definition patterns_compiled :: "IntentRecognizer \<Rightarrow> bool" where
  "patterns_compiled r =
     list_all (\<lambda>kv. map_of (compiled_patterns r) (fst kv) \<noteq> None) (intents r)"



text \<open>
  What the variables map holds for a name bound to \<open>v\<close> in the final namespace: nothing
  when the name starts with an underscore, is a key of the restricted namespace, or
  \<open>v\<close> is a module or a function; else \<open>v\<close>, or its string when \<open>v\<close> is not
  JSON-serializable.
\<close>

definition user_variable ::
  "('v, 'h) sandbox_env \<Rightarrow> 'v SafeExecutionEnvironment \<Rightarrow> 'h \<Rightarrow> string \<Rightarrow> 'v \<Rightarrow> 'v option" where
  "user_variable senv sandbox h nm v =
     (if \<not> startswith nm ''_'' \<and> nm \<notin> fst ` set (safe_namespace sandbox)
         \<and> \<not> is_module_or_function senv h v
      then Some (if json_serializable senv h v then v else str_value senv h v)
      else None)"

section \<open>Catalogue entries and concrete inputs\<close>

text \<open>
  Three intents of \<^verbatim>\<open>_register_default_intents\<close>, with their patterns as the source
  writes them (\<open>bs\<close> is the backslash). The bound handlers act on the desktop; they are
  a parameter.
\<close>

definition bs :: string where
  "bs = [CHR 0x5C]"

definition screenshot_pattern1 :: string where
  "screenshot_pattern1 =
       ''take'' @ bs @ ''s+(?:a'' @ bs @ ''s+)?screenshot(?:'' @ bs @ ''s+(?:and'' @ bs @
         ''s+)?save'' @ bs @ ''s+(?:it'' @ bs @ ''s+)?(?:to'' @ bs @ ''s+)?(?P<save_path>'' @
         bs @ ''S+))?''"

definition screenshot_pattern2 :: string where
  "screenshot_pattern2 =
       ''screenshot(?:'' @ bs @ ''s+save'' @ bs @ ''s+(?:to'' @ bs @ ''s+)?(?P<save_path>'' @
         bs @ ''S+))?''"

definition screenshot_pattern3 :: string where
  "screenshot_pattern3 =
       ''capture'' @ bs @ ''s+(?:the'' @ bs @ ''s+)?screen(?:'' @ bs @ ''s+(?:to'' @ bs @
         ''s+)?(?P<save_path>'' @ bs @ ''S+))?''"

definition click_pattern1 :: string where
  "click_pattern1 =
       ''click'' @ bs @ ''s+(?:at'' @ bs @ ''s+)?(?P<coordinates>'' @ bs @ ''d+[,'' @ bs @
         ''s]+'' @ bs @ ''d+)(?:'' @ bs @ ''s+(?P<button>left|right|middle))?(?:'' @ bs @
         ''s+(?P<clicks>'' @ bs @ ''d+)'' @ bs @ ''s+times?)?''"

definition click_pattern2 :: string where
  "click_pattern2 =
       ''(?P<button>left|right|middle)?'' @ bs @ ''s*click'' @ bs @ ''s+(?P<coordinates>'' @
         bs @ ''d+[,'' @ bs @ ''s]+'' @ bs @ ''d+)''"


definition take_screenshot_intent :: "handler_fn \<Rightarrow> Intent" where
  "take_screenshot_intent h =
     \<lparr>name = ''take_screenshot'', category = AUTOMATION,
      parameters =
        [(''save_path'',
          \<lparr>p_name = ''save_path'', p_type = ''path'', p_required = False,
           p_description = [], p_default = VStr ''desktop'', p_validation_pattern = None\<rparr>)],
      patterns = [screenshot_pattern1, screenshot_pattern2, screenshot_pattern3],
      handler = Some h, requires_confirmation = False,
      description = ''Take a screenshot of the current screen'',
      examples = [''take a screenshot'', ''screenshot and save to desktop'',
                  ''capture the screen to C:/screenshots/image.png'']\<rparr>"


definition system_pattern1 :: string where
  "system_pattern1 =
       ''(?:show|get|display)'' @ bs @ ''s+system'' @ bs @ ''s+(?:info|information)(?:'' @
         bs @ ''s+(?P<info_type>cpu|memory|disk|network))?''"

definition system_pattern2 :: string where
  "system_pattern2 =
       ''system'' @ bs @ ''s+status''"

definition system_pattern3 :: string where
  "system_pattern3 =
       ''computer'' @ bs @ ''s+(?:info|information)''"

definition system_pattern4 :: string where
  "system_pattern4 =
       ''pc'' @ bs @ ''s+(?:info|specs|specifications)''"

definition system_information_intent :: "handler_fn \<Rightarrow> Intent" where
  "system_information_intent h =
     \<lparr>name = ''system_information'', category = SYSTEM_INFO,
      parameters =
        [(''info_type'',
          \<lparr>p_name = ''info_type'', p_type = ''string'', p_required = False,
           p_description = [], p_default = VStr ''general'', p_validation_pattern = None\<rparr>)],
      patterns = [system_pattern1, system_pattern2, system_pattern3, system_pattern4],
      handler = Some h, requires_confirmation = False,
      description = ''Display system information and status'',
      examples = [''show system info'', ''get system information cpu'', ''computer info'']\<rparr>"

text \<open>
  What Python's \<^verbatim>\<open>re\<close> answers where the examples below ask it: the six patterns
  above searched in two texts, and \<^verbatim>\<open>re.match\<close> on two validation patterns, of which
  \<^verbatim>\<open>(\<close> is malformed. Elsewhere the table answers "no match".
\<close>

definition sample_search ::
  "string \<Rightarrow> string \<Rightarrow> (string \<times> (string \<times> string option) list) option" where
  "sample_search pattern text =
     (if text = ''take a screenshot'' then
        (if pattern = screenshot_pattern1
         then Some (''take a screenshot'', [(''save_path'', None)])
         else if pattern = screenshot_pattern2
         then Some (''screenshot'', [(''save_path'', None)])
         else None)
      else if text = ''please click 10 20 now'' then
        (if pattern = click_pattern1
         then Some (''click 10 20'',
                    [(''coordinates'', Some ''10 20''), (''button'', None), (''clicks'', None)])
         else if pattern = click_pattern2
         then Some ('' click 10 20'', [(''button'', None), (''coordinates'', Some ''10 20'')])
         else None)
      else None)"

definition sample_match :: "string \<Rightarrow> string \<Rightarrow> exc + bool" where
  "sample_match pattern s =
     (if pattern = ''(''
      then Inl (ReError, ''missing ), unterminated subpattern at position 0'')
      else Inr (pattern = ''[a-z]+'' \<and> s = ''x''))"

text \<open>\<^verbatim>\<open>str\<close> of a string, a path, \<^verbatim>\<open>None\<close> and a boolean; the examples take no other.\<close>

fun sample_str :: "pyval \<Rightarrow> string" where
  "sample_str (VStr s) = s"
| "sample_str (VPath s) = s"
| "sample_str (VBool b) = (if b then ''True'' else ''False'')"
| "sample_str v = ''None''"

definition sample_env :: py_env where
  "sample_env =
     \<lparr>int_of_str = digits_int, float_of_str = digits_float,
      re_search = sample_search, re_match = sample_match, str_of = sample_str\<rparr>"

definition ok_handler :: handler_fn where
  "ok_handler params = Inr [(''success'', VBool True)]"



text \<open>
  The match objects of the first pattern of the first two intents on the two texts, and
  of \<^verbatim>\<open>system\s+status\<close>, which has no named group, on \<^verbatim>\<open>system status\<close>.
\<close>

definition system_status_match :: Match where
  "system_status_match =
     \<lparr>m_group0 = ''system status'', m_groupdict = [], m_string = ''system status''\<rparr>"


definition screenshot_match :: Match where
  "screenshot_match =
     \<lparr>m_group0 = ''take a screenshot'', m_groupdict = [(''save_path'', None)],
      m_string = ''take a screenshot''\<rparr>"


text \<open>
  A template with a required parameter that has a default, and one whose optional
  parameter has a malformed validation pattern.
\<close>

definition open_application_with_default :: Intent where
  "open_application_with_default =
     \<lparr>name = ''open_application'', category = APPLICATION,
      parameters =
        [(''app_name'',
          \<lparr>p_name = ''app_name'', p_type = ''string'', p_required = True,
           p_description = [], p_default = VStr ''notepad'', p_validation_pattern = None\<rparr>)],
      patterns = [''open the editor''],
      handler = Some ok_handler, requires_confirmation = False,
      description = [], examples = []\<rparr>"


subsection \<open>A sandbox with a heap\<close>

text \<open>
  Values of a namespace: integers, strings, references to lists on the heap, modules,
  functions defined by the code, and built-in functions. The heap maps an address to
  the list stored there.
\<close>

datatype sval =
    SInt int
  | SStr string
  | SRef nat
  | SModule string
  | SFunction string
  | SBuiltin string

type_synonym heap = "nat \<Rightarrow> int list"

text \<open>
  The two programs of the examples, \<^verbatim>\<open>import os\<close> and \<^verbatim>\<open>xs.append(2); 1/0\<close>: their
  syntax trees and what executing them does. The second appends to the list that
  \<^verbatim>\<open>xs\<close> refers to and then raises \<^verbatim>\<open>ZeroDivisionError\<close>. Any other text is
  taken as the empty program.
\<close>

definition append_then_fail :: string where
  "append_then_fail = ''xs.append(2); 1/0''"

definition sample_parse :: "string \<Rightarrow> exc + stmt list" where
  "sample_parse code =
     (if code = ''import os'' then Inr [Import [''os'']]
      else if code = append_then_fail
      then Inr [Expr (Call (Attribute (Name ''xs'') ''append'') [Constant (VInt 2)]),
                Expr (BinOp (Constant (VInt 1)) (Constant (VInt 0)))]
      else Inr [])"

definition sample_exec ::
  "string \<Rightarrow> (string \<times> sval) list \<Rightarrow> heap \<Rightarrow> sval exec_outcome \<times> string \<times> string \<times> heap" where
  "sample_exec code ns h =
     (if code = ''import os'' then (Finished (AList.update ''os'' (SModule ''os'') ns), [], [], h)
      else if code = append_then_fail then
        (case map_of ns ''xs'' of
           Some (SRef a) \<Rightarrow> (Raised (OtherException, ''division by zero''), [], [],
                             h(a := h a @ [2]))
         | _ \<Rightarrow> (Raised (OtherException, ''name xs is not defined''), [], [], h))
      else (Finished ns, [], [], h))"

text \<open>
  The sandbox as it runs without RestrictedPython. \<^verbatim>\<open>str\<close> is only taken of values
  that are not JSON-serializable.
\<close>

definition sample_senv :: "(sval, heap) sandbox_env" where
  "sample_senv =
     \<lparr>ast_parse = sample_parse,
      compile_restricted_errors = None,
      py_exec = sample_exec,
      is_module_or_function =
        (\<lambda>h v. case v of SModule n \<Rightarrow> True | SFunction n \<Rightarrow> True | _ \<Rightarrow> False),
      json_serializable =
        (\<lambda>h v. case v of SInt n \<Rightarrow> True | SStr s \<Rightarrow> True | SRef a \<Rightarrow> True | _ \<Rightarrow> False),
      str_value =
        (\<lambda>h v. case v of SBuiltin n \<Rightarrow> SStr (''<built-in function '' @ n @ ''>'') | _ \<Rightarrow> v)\<rparr>"

definition sample_sandbox :: "sval SafeExecutionEnvironment" where
  "sample_sandbox =
     \<lparr>timeout = 30,
      allowed_modules = [''os'', ''sys'', ''math'', ''datetime'', ''json'', ''re'', ''random''],
      memory_limit_mb = 100,
      safe_namespace = [(''len'', SBuiltin ''len''), (''abs'', SBuiltin ''abs'')]\<rparr>"

text \<open>
  A session in which an earlier run of \<^verbatim>\<open>xs = [1]\<close> has left \<^verbatim>\<open>xs\<close>, a reference
  to the list at address 0.
\<close>

definition sample_executor :: "sval CodeExecutor" where
  "sample_executor = \<lparr>environment = sample_sandbox, executor_session = [(''xs'', SRef 0)]\<rparr>"

definition sample_heap :: heap where
  "sample_heap = (\<lambda>a. [])(0 := [1])"

text \<open>What a session shows to the code that reads it: each name with the list it refers to.\<close>

definition session_contents :: "heap \<Rightarrow> (string \<times> sval) list \<Rightarrow> (string \<times> (sval + int list)) list" where
  "session_contents h session =
     map (\<lambda>kv. (fst kv, case snd kv of SRef a \<Rightarrow> Inr (h a) | v \<Rightarrow> Inl v)) session"

section \<open>Properties of parameter type conversion\<close>

lemma convert_group_value_returns:
  "\<exists>v. convert_parameter_type env (group_value g) t = Inr v"
  by (cases g) (auto simp: convert_parameter_type_def convert_body_def split: option.splits)

text \<open>
  Claim C6. Conversion is total on captured strings and does not raise on malformed
  numbers: for every captured string \<open>s\<close> and every declared kind \<open>k\<close>,
  \<^verbatim>\<open>_convert_parameter_type\<close> returns a value; and when \<^verbatim>\<open>int(s)\<close> or \<^verbatim>\<open>float(s)\<close>
  fails, the value returned is the captured string itself.
\<close>

theorem convert_never_raises_on_str:
  "(\<exists>r. convert_parameter_type env (VStr s) k = Inr r)
   \<and> (int_of_str env s = None
        \<longrightarrow> convert_parameter_type env (VStr s) ''int'' = Inr (VStr s))
   \<and> (float_of_str env s = None
        \<longrightarrow> convert_parameter_type env (VStr s) ''float'' = Inr (VStr s))"
  by (auto simp: convert_parameter_type_def convert_body_def split: option.splits)

text \<open>The strings \<^verbatim>\<open>12a\<close> and \<^verbatim>\<open>1.x\<close> are no numbers and come back unchanged.\<close>

theorem convert_never_raises_on_str_witness:
  "int_of_str sample_env ''12a'' = None
   \<and> convert_parameter_type sample_env (VStr ''12a'') ''int'' = Inr (VStr ''12a'')
   \<and> float_of_str sample_env ''1.x'' = None
   \<and> convert_parameter_type sample_env (VStr ''1.x'') ''float'' = Inr (VStr ''1.x'')"
  using convert_never_raises_on_str [of sample_env "''12a''" "''int''"]
        convert_never_raises_on_str [of sample_env "''1.x''" "''float''"]
  by (simp add: sample_env_def digits_int_def digits_float_def is_digit_def)











section \<open>Properties of parameter extraction\<close>

lemma dict_get_set: "dict_get (dict_set d k v) k' = (if k' = k then Some v else dict_get d k')"
  by (simp add: dict_get_def dict_set_def update_conv')

lemma extract_step_returns: "\<exists>d. extract_step env m kp extracted = Inr d"
proof -
  obtain param_name param where kp: "kp = (param_name, param)" by (cases kp)
  show ?thesis
  proof (cases "map_of (m_groupdict m) param_name")
    case None
    then show ?thesis by (simp add: extract_step_def extract_try_def kp)
  next
    case (Some g)
    obtain v where "convert_parameter_type env (group_value g) (p_type param) = Inr v"
      using convert_group_value_returns by blast
    with Some show ?thesis by (simp add: extract_step_def extract_try_def kp)
  qed
qed

lemma extract_loop_returns: "\<exists>d. extract_loop env m kps extracted = Inr d"
proof (induction kps arbitrary: extracted)
  case Nil
  then show ?case by simp
next
  case (Cons kp kps)
  obtain d where "extract_step env m kp extracted = Inr d"
    using extract_step_returns by blast
  with Cons show ?case by simp
qed


lemma extract_step_other_key:
  "extract_step env m (k', param') d = Inr d' \<Longrightarrow> k' \<noteq> k \<Longrightarrow> dict_get d' k = dict_get d k"
  by (auto simp: extract_step_def extract_try_def dict_get_set
           split: option.splits sum.splits if_splits prod.splits)

lemma extract_loop_other_keys:
  "extract_loop env m kps d = Inr d' \<Longrightarrow> k \<notin> fst ` set kps \<Longrightarrow> dict_get d' k = dict_get d k"
proof (induction kps arbitrary: d)
  case Nil
  then show ?case by simp
next
  case (Cons kp kps)
  obtain k' param' where kp: "kp = (k', param')" by (cases kp)
  from Cons.prems(1) obtain d1 where s: "extract_step env m kp d = Inr d1"
    and l: "extract_loop env m kps d1 = Inr d'"
    by (auto split: sum.splits)
  from Cons.prems(2) kp have "k' \<noteq> k" and "k \<notin> fst ` set kps" by auto
  with Cons.IH [OF l] extract_step_other_key s kp show ?case by metis
qed

lemma extract_step_default:
  "map_of (m_groupdict m) k = None \<Longrightarrow> \<not> p_required param \<Longrightarrow> p_default param \<noteq> VNone \<Longrightarrow>
   extract_step env m (k, param) d = Inr (dict_set d k (p_default param))"
  by (simp add: extract_step_def extract_try_def)

lemma extract_loop_default:
  assumes "map_of (m_groupdict m) k = None"
    and "\<not> p_required param"
    and "p_default param \<noteq> VNone"
  shows "(k, param) \<in> set kps \<Longrightarrow> distinct (map fst kps) \<Longrightarrow>
         extract_loop env m kps d = Inr d' \<Longrightarrow> dict_get d' k = Some (p_default param)"
proof (induction kps arbitrary: d)
  case Nil
  then show ?case by simp
next
  case (Cons kp kps)
  show ?case
  proof (cases "kp = (k, param)")
    case True
    with Cons.prems(3) assms
    have l: "extract_loop env m kps (dict_set d k (p_default param)) = Inr d'"
      by (simp add: extract_step_default)
    from Cons.prems(2) True have "k \<notin> fst ` set kps" by auto
    from extract_loop_other_keys [OF l this] show ?thesis by (simp add: dict_get_set)
  next
    case False
    with Cons.prems have mem: "(k, param) \<in> set kps" and dist: "distinct (map fst kps)"
      by auto
    from Cons.prems(3) obtain d1 where "extract_loop env m kps d1 = Inr d'"
      by (auto split: sum.splits)
    with Cons.IH [OF mem dist] show ?thesis by blast
  qed
qed

text \<open>
  Claim C4 as stated fails twice. The three patterns of \<^verbatim>\<open>take_screenshot\<close> all have
  the group \<^verbatim>\<open>save_path\<close>; on \<^verbatim>\<open>take a screenshot\<close> the group does not capture, its
  name is still a key of \<^verbatim>\<open>groupdict()\<close>, and the extracted value is \<^verbatim>\<open>None\<close>, not
  the default \<^verbatim>\<open>"desktop"\<close>. And a required parameter with a default whose group is
  absent from the pattern is left out of the result.
\<close>

theorem extract_default_counterexample:
  "extract_parameters sample_env (take_screenshot_intent ok_handler) screenshot_match
     ''take a screenshot'' = Inr [(''save_path'', VNone)]
   \<and> extract_parameters sample_env open_application_with_default
       \<lparr>m_group0 = ''open the editor'', m_groupdict = [], m_string = ''open the editor''\<rparr>
       ''open the editor'' = Inr []"
  by (simp add: extract_parameters_def take_screenshot_intent_def screenshot_match_def
        open_application_with_default_def extract_step_def extract_try_def
        convert_parameter_type_def dict_set_def)

text \<open>
  Claim C4, amended. For every parameter of a template that is not required, has a
  default other than \<^verbatim>\<open>None\<close>, and whose name is not a named group of the pattern
  that matched, extraction returns a dictionary in which the parameter has its default.
\<close>

theorem extract_parameters_default_when_absent:
  assumes "(k, param) \<in> set (parameters i)"
    and "distinct (map fst (parameters i))"
    and "map_of (m_groupdict m) k = None"
    and "\<not> p_required param"
    and "p_default param \<noteq> VNone"
  shows "\<exists>d. extract_parameters env i m text = Inr d \<and> dict_get d k = Some (p_default param)"
proof -
  obtain d where d: "extract_loop env m (parameters i) [] = Inr d"
    using extract_loop_returns by blast
  from extract_loop_default [OF assms(3,4,5) assms(1,2) d] d show ?thesis
    by (simp add: extract_parameters_def)
qed

text \<open>
  \<^verbatim>\<open>system status\<close> matches the second pattern of \<^verbatim>\<open>system_information\<close>, which has
  no group: \<^verbatim>\<open>info_type\<close> is the default \<^verbatim>\<open>"general"\<close>.
\<close>

theorem extract_parameters_default_when_absent_witness:
  "extract_parameters sample_env (system_information_intent ok_handler) system_status_match
     ''system status'' = Inr [(''info_type'', VStr ''general'')]
   \<and> dict_get [(''info_type'', VStr ''general'')] ''info_type'' = Some (VStr ''general'')"
  using extract_parameters_default_when_absent
          [of "''info_type''"
              "\<lparr>p_name = ''info_type'', p_type = ''string'', p_required = False,
                p_description = [], p_default = VStr ''general'',
                p_validation_pattern = None\<rparr>"
              "system_information_intent ok_handler" system_status_match sample_env
              "''system status''"]
  by (simp add: system_information_intent_def system_status_match_def extract_parameters_def
        extract_step_def extract_try_def dict_set_def dict_get_def)


section \<open>Properties of the confidence score and of parsing\<close>















text \<open>\<^verbatim>\<open>register_intent\<close> keeps every intent with its compiled patterns.\<close>

lemma update_other_member:
  "(a, b) \<in> set (AList.update k v al) \<Longrightarrow> a \<noteq> k \<Longrightarrow> (a, b) \<in> set al"
  by (induction al) (auto split: if_splits)

lemma register_intent_patterns_compiled:
  assumes "patterns_compiled r"
  shows "patterns_compiled (register_intent r i h)"
proof -
  define i' where "i' = (case h of Some f \<Rightarrow> i\<lparr>handler := Some f\<rparr> | None \<Rightarrow> i)"
  have reg: "register_intent r i h =
               r\<lparr>intents := AList.update (name i') i' (intents r),
                 compiled_patterns := AList.update (name i') (patterns i') (compiled_patterns r)\<rparr>"
    by (simp add: register_intent_def i'_def Let_def)
  have "map_of (AList.update (name i') (patterns i') (compiled_patterns r)) a \<noteq> None"
    if "(a, b) \<in> set (AList.update (name i') i' (intents r))" for a b
  proof (cases "a = name i'")
    case True
    then show ?thesis by (simp add: update_conv')
  next
    case False
    with that have "(a, b) \<in> set (intents r)" by (rule update_other_member)
    with assms have "map_of (compiled_patterns r) a \<noteq> None"
      by (auto simp: patterns_compiled_def list_all_iff)
    with False show ?thesis by (simp add: update_conv')
  qed
  then show ?thesis
    by (auto simp: reg patterns_compiled_def list_all_iff)
qed




section \<open>Properties of validation and execution\<close>














text \<open>No exception that \<^verbatim>\<open>except Exception\<close> catches leaves \<^verbatim>\<open>execute_intent\<close>.\<close>

lemma execute_intent_never_propagates:
  "execute_intent env parsed = Inl (cls, msg) \<Longrightarrow> cls = BaseExceptionOnly"
  by (auto simp: execute_intent_def split: option.splits sum.splits if_splits)


section \<open>Properties of the sandbox\<close>

lemma startswith_underscores: "startswith nm ''__'' \<Longrightarrow> startswith nm ''_''"
  by (cases nm) (auto simp: startswith_def)

lemma extract_step_var_map_of:
  "map_of (extract_step_var senv h (map fst (safe_namespace sandbox)) acc (nm, v)) x =
     (if x = nm
      then (case user_variable senv sandbox h nm v of
              None \<Rightarrow> map_of acc x
            | Some w \<Rightarrow> Some w)
      else map_of acc x)"
  using startswith_underscores [of nm]
  by (auto simp: extract_step_var_def user_variable_def update_conv')

lemma foldl_extract_map_of:
  "distinct (map fst ns) \<Longrightarrow>
   map_of (foldl (extract_step_var senv h (map fst (safe_namespace sandbox))) acc ns) x =
     (case map_of ns x of
        None \<Rightarrow> map_of acc x
      | Some v \<Rightarrow>
          (case user_variable senv sandbox h x v of
             None \<Rightarrow> map_of acc x
           | Some w \<Rightarrow> Some w))"
proof (induction ns arbitrary: acc)
  case Nil
  then show ?case by simp
next
  case (Cons kv ns)
  obtain nm v where kv: "kv = (nm, v)" by (cases kv)
  from Cons.prems kv have d: "distinct (map fst ns)" and nin: "nm \<notin> fst ` set ns" by auto
  from nin have none: "map_of ns nm = None" by (simp add: map_of_eq_None_iff)
  show ?case
  proof (cases "x = nm")
    case True
    then show ?thesis
      using Cons.IH [OF d] none
      by (simp add: kv extract_step_var_map_of split: option.splits)
  next
    case False
    then show ?thesis
      using Cons.IH [OF d]
      by (simp add: kv extract_step_var_map_of split: option.splits)
  qed
qed

text \<open>
  Claim C9. For every final namespace (a dictionary: its names are distinct), the
  variables map has an entry for a name exactly when the namespace binds the name, the
  name does not start with an underscore, is not a key of the restricted namespace, and
  its value is neither a module nor a function; the entry is the value itself when it
  is JSON-serializable and its string otherwise. In particular no key of the restricted
  namespace is in the variables map.
\<close>

theorem extract_user_variables_exact:
  assumes "distinct (map fst namespace)"
  shows "map_of (extract_user_variables senv sandbox h namespace) nm =
           (case map_of namespace nm of
              None \<Rightarrow> None
            | Some v \<Rightarrow> user_variable senv sandbox h nm v)
         \<and> (nm \<in> fst ` set (safe_namespace sandbox)
              \<longrightarrow> map_of (extract_user_variables senv sandbox h namespace) nm = None)"
  using foldl_extract_map_of [OF assms, of senv h sandbox "[]" nm]
  by (auto simp: extract_user_variables_def user_variable_def split: option.splits)

text \<open>
  A namespace after a run: the two built-ins of the restricted namespace, a list, a
  private name, a module and a built-in function bound by the code.
\<close>

theorem extract_user_variables_exact_witness:
  "distinct (map fst [(''len'', SBuiltin ''len''), (''abs'', SBuiltin ''abs''),
                      (''xs'', SRef 0), (''_tmp'', SInt 1), (''os'', SModule ''os''),
                      (''f'', SBuiltin ''print'')])
   \<and> map_of (extract_user_variables sample_senv sample_sandbox sample_heap
               [(''len'', SBuiltin ''len''), (''abs'', SBuiltin ''abs''),
                (''xs'', SRef 0), (''_tmp'', SInt 1), (''os'', SModule ''os''),
                (''f'', SBuiltin ''print'')]) ''f''
       = Some (SStr ''<built-in function print>'')
   \<and> map_of (extract_user_variables sample_senv sample_sandbox sample_heap
               [(''len'', SBuiltin ''len''), (''abs'', SBuiltin ''abs''),
                (''xs'', SRef 0), (''_tmp'', SInt 1), (''os'', SModule ''os''),
                (''f'', SBuiltin ''print'')]) ''len''
       = None"
proof -
  let ?ns = "[(''len'', SBuiltin ''len''), (''abs'', SBuiltin ''abs''),
              (''xs'', SRef 0), (''_tmp'', SInt 1), (''os'', SModule ''os''),
              (''f'', SBuiltin ''print'')]"
  have d: "distinct (map fst ?ns)" by simp
  from extract_user_variables_exact [OF d, of sample_senv sample_sandbox sample_heap "''f''"]
       extract_user_variables_exact [OF d, of sample_senv sample_sandbox sample_heap "''len''"]
  show ?thesis
    by (simp add: user_variable_def sample_senv_def sample_sandbox_def startswith_def)
qed

text \<open>
  Claim C10 as stated fails when a session variable refers to a mutable object. The
  namespace of a run is a copy of the dictionary, but the objects are shared: with
  \<^verbatim>\<open>xs\<close> bound to the list \<^verbatim>\<open>[1]\<close>, the code \<^verbatim>\<open>xs.append(2); 1/0\<close> fails, the
  executor is left as it was, and the list that the session reads under \<^verbatim>\<open>xs\<close> is
  \<^verbatim>\<open>[1, 2]\<close>.
\<close>

theorem execute_persistent_aliasing_counterexample:
  "execute_persistent sample_senv sample_executor append_then_fail sample_heap
     = (Inr (initial_result\<lparr>error := Some ''division by zero'', traceback := True\<rparr>),
        sample_executor, sample_heap(0 := [1, 2]))
   \<and> \<not> success (initial_result\<lparr>error := Some ''division by zero'', traceback := True\<rparr>
                    :: sval exec_result)
   \<and> session_contents sample_heap (executor_session sample_executor) = [(''xs'', Inr [1])]
   \<and> session_contents (sample_heap(0 := [1, 2])) (executor_session sample_executor)
       = [(''xs'', Inr [1, 2])]"
  by (simp add: execute_persistent_def execute_code_def validate_code_def validate_try_def
        execute_with_timeout_def sample_senv_def sample_parse_def sample_exec_def
        append_then_fail_def sample_executor_def sample_sandbox_def sample_heap_def
        dict_update_def initial_result_def session_contents_def)

text \<open>
  Claim C10, amended. After \<^verbatim>\<open>_execute_persistent\<close> the executor, and with it the
  dictionary \<^verbatim>\<open>session_variables\<close> (which names it binds, and to which objects), is
  the one before the call whenever the result has \<^verbatim>\<open>success = False\<close> or the call
  raises; and after a result with \<^verbatim>\<open>success = True\<close> the dictionary is the one before
  updated with the variables of the run. Nothing is said of the contents of the objects
  that the session refers to.
\<close>

theorem execute_persistent_session:
  "execute_persistent senv ex code h = (res, ex', h') \<Longrightarrow>
     (\<forall>result. res = Inr result \<longrightarrow> \<not> success result \<longrightarrow> ex' = ex)
     \<and> (\<forall>e. res = Inl e \<longrightarrow> ex' = ex)
     \<and> (\<forall>result. res = Inr result \<longrightarrow> success result \<longrightarrow>
           (\<exists>run. fst (execute_code senv (environment ex) code (executor_session ex) h)
                    = Inr run
              \<and> executor_session ex' = dict_update (executor_session ex) (variables run)
              \<and> environment ex' = environment ex))"
  by (auto simp: execute_persistent_def Let_def split: prod.splits sum.splits if_splits)

text \<open>The failing run above, and a successful \<^verbatim>\<open>import os\<close>, after which the session
  still holds \<^verbatim>\<open>xs\<close> alone.\<close>

theorem execute_persistent_session_witness:
  "execute_persistent sample_senv sample_executor append_then_fail sample_heap
     = (Inr (initial_result\<lparr>error := Some ''division by zero'', traceback := True\<rparr>),
        sample_executor, sample_heap(0 := [1, 2]))
   \<and> fst (snd (execute_persistent sample_senv sample_executor ''import os'' sample_heap))
       = sample_executor"
proof -
  have run1: "execute_persistent sample_senv sample_executor append_then_fail sample_heap
     = (Inr (initial_result\<lparr>error := Some ''division by zero'', traceback := True\<rparr>),
        sample_executor, sample_heap(0 := [1, 2]))"
    by (simp add: execute_persistent_def execute_code_def validate_code_def validate_try_def
          execute_with_timeout_def sample_senv_def sample_parse_def sample_exec_def
          append_then_fail_def sample_executor_def sample_sandbox_def sample_heap_def
          dict_update_def initial_result_def)
  have run2: "fst (snd (execute_persistent sample_senv sample_executor ''import os'' sample_heap))
       = sample_executor"
    by (simp add: execute_persistent_def execute_code_def validate_code_def validate_try_def
          execute_with_timeout_def sample_senv_def sample_parse_def sample_exec_def
          append_then_fail_def sample_executor_def sample_sandbox_def sample_heap_def
          dict_update_def initial_result_def extract_user_variables_def extract_step_var_def
          startswith_def Let_def)
  from execute_persistent_session [OF run1] run1 run2 show ?thesis by simp
qed

text \<open>
  Claim C1 and the code. The validator finds the violation in \<^verbatim>\<open>import os\<close>, but
  \<^verbatim>\<open>_validate_code\<close> never reads the list of violations: without RestrictedPython
  the code is reported valid, and \<^verbatim>\<open>execute_code\<close> goes on to execute it and reports
  success.
\<close>

theorem validate_code_ignores_violations:
  "CodeValidator_violations [Import [''os'']] = [''Prohibited import: os'']
   \<and> ast_parse sample_senv ''import os'' = Inr [Import [''os'']]
   \<and> validate_code sample_senv ''import os'' = Inr Valid
   \<and> fst (execute_code sample_senv sample_sandbox ''import os'' [] sample_heap)
       = Inr (initial_result\<lparr>success := True\<rparr>)"
  by (simp add: CodeValidator_violations_def first_component_def prohibited_modules_def
        validate_code_def validate_try_def execute_code_def execute_with_timeout_def
        sample_senv_def sample_parse_def sample_exec_def sample_sandbox_def
        initial_result_def extract_user_variables_def extract_step_var_def startswith_def)


end
